theory Spec2Isabelle
  imports Complex_Main "HOL-Library.Word" "HOL-Library.Char_ord" "HOL-Library.List_Lexorder"
begin

section \<open>Numbers in a data frame\<close>

text \<open>
  The program is a single script, \<^verbatim>\<open>app.py\<close>: \<^verbatim>\<open>load_data\<close> reads
  \<^verbatim>\<open>synthetic_claims_data.csv\<close> into a data frame and cleans it column by column, and the body of
  the \<^verbatim>\<open>try\<close> block computes four figures and draws four grouped views of the cleaned frame.

  A numeric column of a frame has one of four types, and the arithmetic of the script is the
  arithmetic of that type: \<^verbatim>\<open>int64\<close> and \<^verbatim>\<open>uint64\<close> wrap around, \<^verbatim>\<open>float64\<close> has the two
  infinities and \<^verbatim>\<open>NaN\<close>, and \<^verbatim>\<open>+\<close> on two \<^verbatim>\<open>bool\<close> columns is disjunction.

  A finite \<^verbatim>\<open>float64\<close> is modelled by the real number it stands for: binary rounding is left
  out, overflow to an infinity is not.
\<close>

datatype float64 = NaN | NInf | Finite real | PInf

text \<open>A sum of this magnitude or more rounds to an infinity: \<open>2 ^ 1024 - 2 ^ 970\<close>.\<close>

definition overflow :: real where
  "overflow =
    179769313486231580793728971405303415079934132710037826936173778980444968292764750946649017977587207096330286416692887910946555547851940402630657488671505820681908902000708383676273854845817711531764475730270069855571366959622842914819860834936475292719074168444365510704342711559699508093042880177904174497792"

definition ranged :: "real \<Rightarrow> float64" where
  "ranged z = (if overflow \<le> z then PInf else if z \<le> - overflow then NInf else Finite z)"

fun fadd :: "float64 \<Rightarrow> float64 \<Rightarrow> float64" where
  "fadd NaN y = NaN"
| "fadd x NaN = NaN"
| "fadd PInf NInf = NaN"
| "fadd NInf PInf = NaN"
| "fadd PInf y = PInf"
| "fadd x PInf = PInf"
| "fadd NInf y = NInf"
| "fadd x NInf = NInf"
| "fadd (Finite x) (Finite y) = ranged (x + y)"

text \<open>Division of a float by a positive count.\<close>

fun fdiv :: "float64 \<Rightarrow> nat \<Rightarrow> float64" where
  "fdiv (Finite x) n = Finite (x / real n)"
| "fdiv x n = x"

text \<open>
  The order in which pandas sorts floats: by value, with \<^verbatim>\<open>NaN\<close> put last when the largest
  comes first.
\<close>

fun level :: "float64 \<Rightarrow> nat" where
  "level NaN = 0"
| "level NInf = 1"
| "level (Finite x) = 2"
| "level PInf = 3"

fun mag :: "float64 \<Rightarrow> real" where
  "mag (Finite x) = x"
| "mag x = 0"

instantiation float64 :: linorder
begin

definition less_eq_float64 :: "float64 \<Rightarrow> float64 \<Rightarrow> bool" where
  "less_eq_float64 a b \<longleftrightarrow> level a < level b \<or> (level a = level b \<and> mag a \<le> mag b)"

definition less_float64 :: "float64 \<Rightarrow> float64 \<Rightarrow> bool" where
  "less_float64 a b \<longleftrightarrow> level a < level b \<or> (level a = level b \<and> mag a < mag b)"

instance
proof
  fix x y z :: float64
  show "x < y \<longleftrightarrow> x \<le> y \<and> \<not> y \<le> x"
    by (auto simp: less_eq_float64_def less_float64_def)
  show "x \<le> x"
    by (simp add: less_eq_float64_def)
  show "x \<le> y \<Longrightarrow> y \<le> z \<Longrightarrow> x \<le> z"
    by (auto simp: less_eq_float64_def)
  show "x \<le> y \<Longrightarrow> y \<le> x \<Longrightarrow> x = y"
    by (cases x; cases y) (auto simp: less_eq_float64_def)
  show "x \<le> y \<or> y \<le> x"
    by (auto simp: less_eq_float64_def)
qed

end

text \<open>One cell of a numeric column, tagged with the type of its column.\<close>

datatype num = B bool | I "64 word" | U "64 word" | F float64

fun to_float :: "num \<Rightarrow> float64" where
  "to_float (B b) = Finite (of_bool b)"
| "to_float (I w) = Finite (real_of_int (sint w))"
| "to_float (U w) = Finite (real_of_int (uint w))"
| "to_float (F x) = x"

fun to_word :: "num \<Rightarrow> 64 word" where
  "to_word (B b) = of_bool b"
| "to_word (I w) = w"
| "to_word (U w) = w"
| "to_word (F x) = 0"

text \<open>
  \<^verbatim>\<open>+\<close> at one row of two columns. The type of the sum follows numpy: a float operand gives a
  float; \<^verbatim>\<open>int64\<close> with \<^verbatim>\<open>uint64\<close> gives a float; two \<^verbatim>\<open>bool\<close>s give their disjunction;
  otherwise the sum is taken in the 64-bit integer type of the operands and wraps.
\<close>

fun num_add :: "num \<Rightarrow> num \<Rightarrow> num" where
  "num_add (F x) b = F (fadd x (to_float b))"
| "num_add a (F y) = F (fadd (to_float a) y)"
| "num_add (B a) (B b) = B (a \<or> b)"
| "num_add (I a) (U b) = F (fadd (to_float (I a)) (to_float (U b)))"
| "num_add (U a) (I b) = F (fadd (to_float (U a)) (to_float (I b)))"
| "num_add (U a) b = U (a + to_word b)"
| "num_add a (U b) = U (to_word a + b)"
| "num_add a b = I (to_word a + to_word b)"

definition col_add :: "num list \<Rightarrow> num list \<Rightarrow> num list" where
  "col_add xs ys = map (\<lambda>(x, y). num_add x y) (zip xs ys)"

text \<open>\<^verbatim>\<open>fillna(v)\<close>: only a float column has missing values.\<close>

fun fill :: "real \<Rightarrow> num \<Rightarrow> num" where
  "fill v (F NaN) = F (Finite v)"
| "fill v x = x"

definition fillna :: "real \<Rightarrow> num list \<Rightarrow> num list" where
  "fillna v xs = map (fill v) xs"

text \<open>A number that is neither missing nor infinite, and the real number it stands for.\<close>

fun finite_num :: "num \<Rightarrow> bool" where
  "finite_num (F (Finite x)) = True"
| "finite_num (F x) = False"
| "finite_num x = True"

definition value_of :: "num \<Rightarrow> real" where
  "value_of x = mag (to_float x)"

fun is_finite_float :: "num \<Rightarrow> bool" where
  "is_finite_float (F (Finite x)) = True"
| "is_finite_float x = False"

section \<open>The claims table\<close>

text \<open>
  What \<^verbatim>\<open>pd.read_csv\<close> hands to the script: a frame of ten columns of one length. The four
  categorical columns hold texts or nothing. A date or monetary column is numeric, of one of the
  four types, or it is an object column of texts and empty cells.
\<close>

datatype cell = Blank | Text string

datatype rawcol = Numeric "num list" | Object "cell list"

fun rawlen :: "rawcol \<Rightarrow> nat" where
  "rawlen (Numeric xs) = length xs"
| "rawlen (Object cs) = length cs"

record timestamp =
  year :: int
  month :: int
  day :: int

text \<open>
  The ten columns. A frame has a column in each field, a record of the cleaned frame has the value
  of one row in each field.
\<close>

record ('s, 'd, 'm) row =
  ClaimNumber :: 's
  ClaimStatus :: 's
  DateOfLoss :: 'd
  DateReported :: 'd
  CauseOfLoss :: 's
  Location :: 's
  PaidIndemnity :: 'm
  PaidExpense :: 'm
  ReserveIndemnity :: 'm
  ReserveExpense :: 'm

type_synonym frame = "(string option list, rawcol, rawcol) row"

text \<open>A row of the cleaned frame, with the three derived columns.\<close>

record claim = "(string option, timestamp option, num) row" +
  TotalIncurred :: num
  TotalPaid :: num
  LossYear :: "int option"

definition nrows :: "frame \<Rightarrow> nat" where
  "nrows f = length (ClaimNumber f)"

definition frame_ok :: "frame \<Rightarrow> bool" where
  "frame_ok f \<longleftrightarrow>
     length (ClaimStatus f) = nrows f \<and> length (CauseOfLoss f) = nrows f \<and>
     length (Location f) = nrows f \<and>
     rawlen (DateOfLoss f) = nrows f \<and> rawlen (DateReported f) = nrows f \<and>
     rawlen (PaidIndemnity f) = nrows f \<and> rawlen (PaidExpense f) = nrows f \<and>
     rawlen (ReserveIndemnity f) = nrows f \<and> rawlen (ReserveExpense f) = nrows f"

section \<open>The libraries\<close>

text \<open>
  What pandas and plotly do inside their calls is not part of the script. It enters as a
  parameter:
  \<^item> \<open>to_numeric_object\<close>: \<^verbatim>\<open>pd.to_numeric(_, errors='coerce')\<close> on an object column;
  \<^item> \<open>pd_to_datetime\<close>: \<^verbatim>\<open>pd.to_datetime(_, errors='coerce')\<close> on a whole column, \<open>None\<close> where
    the call raises;
  \<^item> \<open>bar_names\<close>, \<open>bar_years\<close>, \<open>pie\<close>: whether \<^verbatim>\<open>px.bar\<close> and \<^verbatim>\<open>px.pie\<close> draw a view that is
    not empty.
\<close>

record library =
  to_numeric_object :: "cell list \<Rightarrow> num list"
  pd_to_datetime :: "rawcol \<Rightarrow> timestamp option list option"
  bar_names :: "(string \<times> float64) list \<Rightarrow> bool"
  bar_years :: "(int \<times> float64) list \<Rightarrow> bool"
  pie :: "(string \<times> nat) list \<Rightarrow> bool"

text \<open>\<^verbatim>\<open>pd.to_numeric(_, errors='coerce')\<close>: a numeric column comes back as it is.\<close>

fun to_numeric :: "library \<Rightarrow> rawcol \<Rightarrow> num list" where
  "to_numeric lib (Numeric xs) = xs"
| "to_numeric lib (Object cs) = to_numeric_object lib cs"

text \<open>The library keeps the length of a column.\<close>

definition lib_ok :: "library \<Rightarrow> frame \<Rightarrow> bool" where
  "lib_ok lib f \<longleftrightarrow>
     length (to_numeric lib (PaidIndemnity f)) = nrows f \<and>
     length (to_numeric lib (PaidExpense f)) = nrows f \<and>
     length (to_numeric lib (ReserveIndemnity f)) = nrows f \<and>
     length (to_numeric lib (ReserveExpense f)) = nrows f \<and>
     (case pd_to_datetime lib (DateOfLoss f) of None \<Rightarrow> True | Some ds \<Rightarrow> length ds = nrows f) \<and>
     (case pd_to_datetime lib (DateReported f) of None \<Rightarrow> True | Some ds \<Rightarrow> length ds = nrows f)"

section \<open>Reading and cleaning: \<^verbatim>\<open>load_data\<close>\<close>

datatype exn = FileNotFoundError | PermissionError | LibraryError

text \<open>
  The file named in \<^verbatim>\<open>pd.read_csv('synthetic_claims_data.csv')\<close> is absent, present but closed to
  the process, or a table.
\<close>

datatype source = Absent | Unreadable | Table frame

fun read_csv :: "source \<Rightarrow> exn + frame" where
  "read_csv Absent = Inl FileNotFoundError"
| "read_csv Unreadable = Inl PermissionError"
| "read_csv (Table f) = Inr f"

text \<open>\<^verbatim>\<open>.dt.year\<close> at one row.\<close>

definition dt_year :: "timestamp option \<Rightarrow> int option" where
  "dt_year d = map_option year d"

text \<open>Line 29 on one of the four monetary columns.\<close>

definition clean_col :: "library \<Rightarrow> rawcol \<Rightarrow> num list" where
  "clean_col lib c = fillna 0 (to_numeric lib c)"

text \<open>
  Lines 23 to 41, the specification's \<^verbatim>\<open>load_and_normalize\<close>. The two date columns are
  converted as wholes, and the load raises where the conversion does. The cleaned columns are
  then cut into the records of the rows.
\<close>

definition load_and_normalize :: "library \<Rightarrow> frame \<Rightarrow> exn + claim list" where
  "load_and_normalize lib f =
    (case pd_to_datetime lib (DateOfLoss f) of
       None \<Rightarrow> Inl LibraryError
     | Some dol \<Rightarrow>
        (case pd_to_datetime lib (DateReported f) of
           None \<Rightarrow> Inl LibraryError
         | Some drp \<Rightarrow>
            (let pin = clean_col lib (PaidIndemnity f);
                 pex = clean_col lib (PaidExpense f);
                 rin = clean_col lib (ReserveIndemnity f);
                 rex = clean_col lib (ReserveExpense f);
                 tin = col_add (col_add (col_add pin pex) rin) rex;
                 tpd = col_add pin pex;
                 lyr = map dt_year dol
             in Inr (map (\<lambda>i.
                  \<lparr>ClaimNumber = ClaimNumber f ! i, ClaimStatus = ClaimStatus f ! i,
                   DateOfLoss = dol ! i, DateReported = drp ! i,
                   CauseOfLoss = CauseOfLoss f ! i, Location = Location f ! i,
                   PaidIndemnity = pin ! i, PaidExpense = pex ! i,
                   ReserveIndemnity = rin ! i, ReserveExpense = rex ! i,
                   TotalIncurred = tin ! i, TotalPaid = tpd ! i, LossYear = lyr ! i\<rparr>)
                  [0..<nrows f]))))"

definition load_data :: "library \<Rightarrow> source \<Rightarrow> exn + claim list" where
  "load_data lib src =
    (case read_csv src of Inl e \<Rightarrow> Inl e | Inr f \<Rightarrow> load_and_normalize lib f)"

section \<open>The four figures\<close>

fun dropna :: "'a option list \<Rightarrow> 'a list" where
  "dropna [] = []"
| "dropna (None # xs) = dropna xs"
| "dropna (Some x # xs) = x # dropna xs"

text \<open>The sum of a float column: \<^verbatim>\<open>NaN\<close> is skipped, the empty sum is 0.\<close>

definition nansum :: "float64 list \<Rightarrow> float64" where
  "nansum xs = foldl fadd (Finite 0) (filter (\<lambda>x. x \<noteq> NaN) xs)"

fun is_int64 :: "num \<Rightarrow> bool" where
  "is_int64 (I w) = True"
| "is_int64 x = False"

fun is_uint64 :: "num \<Rightarrow> bool" where
  "is_uint64 (U w) = True"
| "is_uint64 x = False"

fun is_bool :: "num \<Rightarrow> bool" where
  "is_bool (B b) = True"
| "is_bool x = False"

text \<open>
  \<^verbatim>\<open>Series.sum()\<close>, also the sum of one group. An integer column is summed in its own type and
  wraps, a \<^verbatim>\<open>bool\<close> column is counted, a float column is summed as above. The result is given as
  the number it shows as.
\<close>

definition series_sum :: "num list \<Rightarrow> float64" where
  "series_sum xs =
    (if xs \<noteq> [] \<and> list_all is_int64 xs then to_float (I (sum_list (map to_word xs)))
     else if xs \<noteq> [] \<and> list_all is_uint64 xs then to_float (U (sum_list (map to_word xs)))
     else if xs \<noteq> [] \<and> list_all is_bool xs then Finite (real (length (filter (\<lambda>x. x = B True) xs)))
     else nansum (map to_float xs))"

text \<open>The mask \<^verbatim>\<open>df['ClaimStatus'] == 'Open'\<close> at one row; a missing status compares unequal.\<close>

definition is_open :: "claim \<Rightarrow> bool" where
  "is_open r = (ClaimStatus r = Some ''Open'')"

definition total_incurred :: "claim list \<Rightarrow> float64" where
  "total_incurred df = series_sum (map TotalIncurred df)"

definition total_paid :: "claim list \<Rightarrow> float64" where
  "total_paid df = series_sum (map TotalPaid df)"

definition total_open_claims :: "claim list \<Rightarrow> nat" where
  "total_open_claims df = length (filter is_open df)"

definition open_claims_incurred :: "claim list \<Rightarrow> float64" where
  "open_claims_incurred df = series_sum (map TotalIncurred (filter is_open df))"

text \<open>
  The division \<^verbatim>\<open>/\<close> of a sum by a count. By zero there is no quotient to show, which is the
  fault the guard of line 56 is there to avoid: \<open>None\<close>.
\<close>

definition truediv :: "float64 \<Rightarrow> nat \<Rightarrow> float64 option" where
  "truediv x n = (if n = 0 then None else Some (fdiv x n))"

definition avg_cost_per_open_claim :: "claim list \<Rightarrow> float64 option" where
  "avg_cost_per_open_claim df =
    (if total_open_claims df > 0 then truediv (open_claims_incurred df) (total_open_claims df)
     else Some (Finite 0))"

text \<open>The specification's \<^verbatim>\<open>kpis\<close>: the four figures together.\<close>

definition kpis :: "claim list \<Rightarrow> float64 \<times> float64 \<times> nat \<times> float64 option" where
  "kpis df = (total_incurred df, total_paid df, total_open_claims df, avg_cost_per_open_claim df)"

section \<open>The grouped views\<close>

text \<open>
  \<^verbatim>\<open>df.groupby(key)['TotalIncurred'].sum()\<close>: rows with a missing key are dropped, the groups
  come in ascending order of the key, and each group is summed as a column is.
\<close>

definition groupby_sum :: "(claim \<Rightarrow> 'k::linorder option) \<Rightarrow> claim list \<Rightarrow> ('k \<times> float64) list" where
  "groupby_sum key df =
    map (\<lambda>k. (k, series_sum (map TotalIncurred (filter (\<lambda>r. key r = Some k) df))))
        (sort (remdups (dropna (map key df))))"

text \<open>
  \<^verbatim>\<open>sort_values(ascending=False)\<close>: the largest sum first, \<^verbatim>\<open>NaN\<close> last. Equal sums are left
  here in the order they came in; pandas does not promise an order for them, and no theorem below
  depends on one.
\<close>

definition sort_values_desc :: "('k \<times> float64) list \<Rightarrow> ('k \<times> float64) list" where
  "sort_values_desc xs = rev (sort_key snd (rev xs))"

definition sort_index :: "('k::linorder \<times> float64) list \<Rightarrow> ('k \<times> float64) list" where
  "sort_index xs = sort_key fst xs"

definition head :: "nat \<Rightarrow> 'a list \<Rightarrow> 'a list" where
  "head n xs = take n xs"

text \<open>The specification's \<^verbatim>\<open>top_n_by_group\<close>: the chain of lines 94 and 129.\<close>

definition top_n_by_group ::
  "(claim \<Rightarrow> 'k::linorder option) \<Rightarrow> nat \<Rightarrow> claim list \<Rightarrow> ('k \<times> float64) list" where
  "top_n_by_group key n df = head n (sort_values_desc (groupby_sum key df))"

definition cause_summary :: "claim list \<Rightarrow> (string \<times> float64) list" where
  "cause_summary df = top_n_by_group CauseOfLoss 5 df"

definition location_summary :: "claim list \<Rightarrow> (string \<times> float64) list" where
  "location_summary df = top_n_by_group Location 5 df"

definition year_summary :: "claim list \<Rightarrow> (int \<times> float64) list" where
  "year_summary df = sort_index (groupby_sum LossYear df)"

text \<open>
  \<^verbatim>\<open>Series.value_counts()\<close>: missing values are dropped, each value that occurs gets its number
  of occurrences, and the largest count comes first.
\<close>

definition value_counts :: "'a option list \<Rightarrow> ('a \<times> nat) list" where
  "value_counts xs =
    sort_key (\<lambda>p. - int (snd p))
      (map (\<lambda>k. (k, count_list (dropna xs) k)) (rev (remdups (rev (dropna xs)))))"

definition status_counts :: "claim list \<Rightarrow> (string \<times> nat) list" where
  "status_counts df = value_counts (map ClaimStatus df)"

section \<open>The script\<close>

text \<open>
  \<^verbatim>\<open>px.bar\<close> raises on a view that has no group. Whether it draws another view, and whether
  \<^verbatim>\<open>px.pie\<close> draws, the library says.
\<close>

definition px_bar :: "('a list \<Rightarrow> bool) \<Rightarrow> 'a list \<Rightarrow> exn + 'a list" where
  "px_bar draws view = (if view \<noteq> [] \<and> draws view then Inr view else Inl LibraryError)"

definition px_pie :: "('a list \<Rightarrow> bool) \<Rightarrow> 'a list \<Rightarrow> exn + 'a list" where
  "px_pie draws view = (if draws view then Inr view else Inl LibraryError)"

record page =
  metric_total_incurred :: float64
  metric_total_paid :: float64
  metric_total_open_claims :: nat
  metric_avg_cost_per_open_claim :: "float64 option"
  fig1 :: "(string \<times> float64) list"
  fig2 :: "(string \<times> nat) list"
  fig3 :: "(string \<times> float64) list"
  fig4 :: "(int \<times> float64) list"
  data_editor :: "claim list"

text \<open>Lines 50 to 201: the figures, then the four charts in the order of the script.\<close>

definition render :: "library \<Rightarrow> claim list \<Rightarrow> exn + page" where
  "render lib df =
    (case px_bar (bar_names lib) (cause_summary df) of Inl e \<Rightarrow> Inl e | Inr f1 \<Rightarrow>
     (case px_pie (pie lib) (status_counts df) of Inl e \<Rightarrow> Inl e | Inr f2 \<Rightarrow>
      (case px_bar (bar_names lib) (location_summary df) of Inl e \<Rightarrow> Inl e | Inr f3 \<Rightarrow>
       (case px_bar (bar_years lib) (year_summary df) of Inl e \<Rightarrow> Inl e | Inr f4 \<Rightarrow>
         Inr \<lparr>metric_total_incurred = total_incurred df,
              metric_total_paid = total_paid df,
              metric_total_open_claims = total_open_claims df,
              metric_avg_cost_per_open_claim = avg_cost_per_open_claim df,
              fig1 = f1, fig2 = f2, fig3 = f3, fig4 = f4,
              data_editor = df\<rparr>))))"

text \<open>
  What the run shows: the page, the notice of the \<^verbatim>\<open>except FileNotFoundError\<close> handler, or the
  notice of the \<^verbatim>\<open>except Exception\<close> handler with the exception it caught.
\<close>

datatype outcome = Rendered page | FileNotFoundNotice | ErrorNotice exn

definition app :: "library \<Rightarrow> source \<Rightarrow> outcome" where
  "app lib src =
    (case load_data lib src of
       Inl FileNotFoundError \<Rightarrow> FileNotFoundNotice
     | Inl e \<Rightarrow> ErrorNotice e
     | Inr df \<Rightarrow>
        (case render lib df of
           Inl FileNotFoundError \<Rightarrow> FileNotFoundNotice
         | Inl e \<Rightarrow> ErrorNotice e
         | Inr pg \<Rightarrow> Rendered pg))"

section \<open>A library and tables for the examples\<close>

text \<open>
  The theorems below hold for every library. The examples need one, and it is made to do what
  pandas and plotly do on the columns of the examples:
  \<^item> on an object column \<^verbatim>\<open>to_numeric\<close> reads the texts written in decimal digits; when every
    cell is such a text the column is \<^verbatim>\<open>int64\<close>, and otherwise it is \<^verbatim>\<open>float64\<close> with \<^verbatim>\<open>NaN\<close>
    for the cells it does not read;
  \<^item> on an object column \<^verbatim>\<open>to_datetime\<close> takes the layout of the first text, one of
    \<^verbatim>\<open>YYYY-MM-DD\<close>, \<^verbatim>\<open>MM/DD/YYYY\<close> and \<^verbatim>\<open>YYYY-MM-DDThh:mm:ss+hh:mm\<close>, reads every text in
    that layout and gives \<^verbatim>\<open>NaT\<close> for the others; it raises when two of the dates it read
    have different offsets from UTC;
  \<^item> the charts draw every view that is not empty.
\<close>

definition digit_val :: "char \<Rightarrow> int option" where
  "digit_val c = (let n = (of_char c :: int) in if 48 \<le> n \<and> n \<le> 57 then Some (n - 48) else None)"

fun digits_val :: "int \<Rightarrow> string \<Rightarrow> int option" where
  "digits_val acc [] = Some acc"
| "digits_val acc (c # cs) =
    (case digit_val c of None \<Rightarrow> None | Some d \<Rightarrow> digits_val (10 * acc + d) cs)"

fun plain_number :: "cell \<Rightarrow> int option" where
  "plain_number Blank = None"
| "plain_number (Text s) = (if s = [] then None else digits_val 0 s)"

definition sample_to_numeric_object :: "cell list \<Rightarrow> num list" where
  "sample_to_numeric_object cs =
    (let vs = map plain_number cs in
     if list_all (\<lambda>v. case v of None \<Rightarrow> False | Some n \<Rightarrow> n < 9223372036854775808) vs
     then map (\<lambda>v. case v of None \<Rightarrow> I 0 | Some n \<Rightarrow> I (of_int n)) vs
     else map (\<lambda>v. case v of None \<Rightarrow> F NaN | Some n \<Rightarrow> F (Finite (real_of_int n))) vs)"

definition ymd :: "string \<Rightarrow> string \<Rightarrow> string \<Rightarrow> timestamp option" where
  "ymd ys ms ds =
    (case (digits_val 0 ys, digits_val 0 ms, digits_val 0 ds) of
       (Some y, Some m, Some d) \<Rightarrow>
         (if 1 \<le> m \<and> m \<le> 12 \<and> 1 \<le> d \<and> d \<le> 31
          then Some \<lparr>year = y, month = m, day = d\<rparr> else None)
     | _ \<Rightarrow> None)"

definition iso_date :: "string \<Rightarrow> timestamp option" where
  "iso_date s =
    (if length s = 10 \<and> s ! 4 = CHR ''-'' \<and> s ! 7 = CHR ''-''
     then ymd (take 4 s) (take 2 (drop 5 s)) (drop 8 s) else None)"

definition us_date :: "string \<Rightarrow> timestamp option" where
  "us_date s =
    (if length s = 10 \<and> s ! 2 = CHR ''/'' \<and> s ! 5 = CHR ''/''
     then ymd (drop 6 s) (take 2 s) (take 2 (drop 3 s)) else None)"

text \<open>An offset \<^verbatim>\<open>+hh:mm\<close> or \<^verbatim>\<open>-hh:mm\<close>, in minutes.\<close>

definition utc_offset :: "string \<Rightarrow> int option" where
  "utc_offset s =
    (if length s = 6 \<and> s ! 3 = CHR '':'' \<and> (s ! 0 = CHR ''+'' \<or> s ! 0 = CHR ''-'')
     then (case (digits_val 0 (take 2 (drop 1 s)), digits_val 0 (drop 4 s)) of
             (Some h, Some m) \<Rightarrow>
               Some ((if s ! 0 = CHR ''-'' then - 1 else 1) * (60 * h + m))
           | _ \<Rightarrow> None)
     else None)"

definition clock :: "string \<Rightarrow> bool" where
  "clock s \<longleftrightarrow>
     length s = 8 \<and> s ! 2 = CHR '':'' \<and> s ! 5 = CHR '':'' \<and>
     digits_val 0 (take 2 s) \<noteq> None \<and> digits_val 0 (take 2 (drop 3 s)) \<noteq> None \<and>
     digits_val 0 (drop 6 s) \<noteq> None"

datatype layout = IsoDate | UsDate | IsoStamp

text \<open>A text read in a layout: the date, and the offset from UTC when the layout has one.\<close>

fun scan :: "layout \<Rightarrow> string \<Rightarrow> (timestamp \<times> int option) option" where
  "scan IsoDate s = map_option (\<lambda>t. (t, None)) (iso_date s)"
| "scan UsDate s = map_option (\<lambda>t. (t, None)) (us_date s)"
| "scan IsoStamp s =
    (if length s = 25 \<and> s ! 10 = CHR ''T'' \<and> clock (take 8 (drop 11 s))
     then (case (iso_date (take 10 s), utc_offset (drop 19 s)) of
             (Some t, Some z) \<Rightarrow> Some (t, Some z)
           | _ \<Rightarrow> None)
     else None)"

definition guess :: "string \<Rightarrow> layout option" where
  "guess s =
    (if scan IsoDate s \<noteq> None then Some IsoDate
     else if scan UsDate s \<noteq> None then Some UsDate
     else if scan IsoStamp s \<noteq> None then Some IsoStamp
     else None)"

fun text_of :: "cell \<Rightarrow> string option" where
  "text_of Blank = None"
| "text_of (Text s) = Some s"

definition scan_cell :: "layout option \<Rightarrow> cell \<Rightarrow> (timestamp \<times> int option) option" where
  "scan_cell lay c =
    (case (lay, text_of c) of
       (Some l, Some s) \<Rightarrow> scan l s
     | _ \<Rightarrow> None)"

definition sample_to_datetime :: "rawcol \<Rightarrow> timestamp option list option" where
  "sample_to_datetime col =
    (case col of
       Numeric xs \<Rightarrow> Some (map (\<lambda>x. None) xs)
     | Object cs \<Rightarrow>
        (let lay = (case dropna (map text_of cs) of [] \<Rightarrow> None | s # ss \<Rightarrow> guess s);
             scanned = map (scan_cell lay) cs
         in if length (remdups (map snd (dropna scanned))) > 1 then None
            else Some (map (map_option fst) scanned)))"

definition sample_lib :: library where
  "sample_lib =
    \<lparr>to_numeric_object = sample_to_numeric_object,
     pd_to_datetime = sample_to_datetime,
     bar_names = (\<lambda>view. True),
     bar_years = (\<lambda>view. True),
     pie = (\<lambda>view. True)\<rparr>"

text \<open>
  Seven lines of a claims file. The first has an amount that is no number and an empty amount;
  the second has a date of loss that is no date and no status; the fifth has no date of loss.
\<close>

definition sample_frame :: frame where
  "sample_frame =
    \<lparr>ClaimNumber = [Some ''CLM-001'', Some ''CLM-002'', Some ''CLM-003'', Some ''CLM-004'',
                    Some ''CLM-005'', Some ''CLM-006'', Some ''CLM-007''],
     ClaimStatus = [Some ''Open'', None, Some ''Closed'', Some ''Open'',
                    Some ''Closed'', Some ''Open'', Some ''Open''],
     DateOfLoss = Object [Text ''2023-01-15'', Text ''last spring'', Text ''2022-11-02'',
                          Text ''2023-03-09'', Blank, Text ''2021-07-30'', Text ''2022-02-14''],
     DateReported = Object [Text ''2023-01-20'', Blank, Text ''2022-11-03'',
                            Text ''2023-03-10'', Blank, Text ''2021-08-02'', Text ''2022-02-15''],
     CauseOfLoss = [Some ''Fire'', Some ''Water'', Some ''Fire'', Some ''Theft'',
                    Some ''Wind'', Some ''Hail'', Some ''Flood''],
     Location = [None, Some ''Leeds'', Some ''Leeds'', Some ''York'',
                 Some ''York'', Some ''Hull'', Some ''Leeds''],
     PaidIndemnity = Object [Text ''unknown'', Text ''1000'', Text ''500'', Text ''40'',
                             Text ''75'', Text ''0'', Text ''2500''],
     PaidExpense = Numeric [F NaN, F (Finite 200), F (Finite 0), F (Finite 10),
                            F (Finite 15), F (Finite 5), F (Finite 100)],
     ReserveIndemnity = Numeric [I 300, I 0, I 300, I 50, I 0, I 20, I 0],
     ReserveExpense = Numeric [F (Finite 12), F (Finite 0), F (Finite 0), F (Finite 0),
                               F (Finite 0), F (Finite 0), F (Finite 400)]\<rparr>"

text \<open>The two rows of the worked example in section 8 of the specification, which gives them
  amounts and a status only.\<close>

definition example_frame :: frame where
  "example_frame =
    \<lparr>ClaimNumber = [Some ''A'', Some ''B''],
     ClaimStatus = [Some ''Open'', Some ''Closed''],
     DateOfLoss = Object [Blank, Blank],
     DateReported = Object [Blank, Blank],
     CauseOfLoss = [None, None],
     Location = [None, None],
     PaidIndemnity = Numeric [I 1000, I 500],
     PaidExpense = Numeric [I 200, I 0],
     ReserveIndemnity = Numeric [I 0, I 300],
     ReserveExpense = Numeric [I 0, I 0]\<rparr>"

text \<open>A row whose file has \<^verbatim>\<open>inf\<close> and \<^verbatim>\<open>-inf\<close> in the two paid columns.\<close>

definition infinite_frame :: frame where
  "infinite_frame =
    \<lparr>ClaimNumber = [Some ''CLM-101''],
     ClaimStatus = [Some ''Open''],
     DateOfLoss = Object [Text ''2023-01-15''],
     DateReported = Object [Text ''2023-01-20''],
     CauseOfLoss = [Some ''Fire''],
     Location = [Some ''Leeds''],
     PaidIndemnity = Numeric [F PInf],
     PaidExpense = Numeric [F NInf],
     ReserveIndemnity = Numeric [F (Finite 0)],
     ReserveExpense = Numeric [F (Finite 0)]\<rparr>"

text \<open>Two rows of whole amounts, the largest \<^verbatim>\<open>int64\<close> among them.\<close>

definition wrap_frame :: frame where
  "wrap_frame =
    \<lparr>ClaimNumber = [Some ''CLM-201'', Some ''CLM-202''],
     ClaimStatus = [Some ''Open'', Some ''Closed''],
     DateOfLoss = Object [Text ''2023-01-15'', Text ''2023-02-01''],
     DateReported = Object [Text ''2023-01-20'', Text ''2023-02-02''],
     CauseOfLoss = [Some ''Fire'', Some ''Water''],
     Location = [Some ''Leeds'', Some ''York''],
     PaidIndemnity = Numeric [I 9223372036854775807, I 9223372036854775807],
     PaidExpense = Numeric [I 1, I 0],
     ReserveIndemnity = Numeric [I 0, I 1],
     ReserveExpense = Numeric [I 0, I 0]\<rparr>"

text \<open>Two open claims of whole amounts whose sum is beyond \<^verbatim>\<open>int64\<close>.\<close>

definition wrap_sum_frame :: frame where
  "wrap_sum_frame =
    \<lparr>ClaimNumber = [Some ''CLM-301'', Some ''CLM-302''],
     ClaimStatus = [Some ''Open'', Some ''Open''],
     DateOfLoss = Object [Text ''2023-01-15'', Text ''2023-02-01''],
     DateReported = Object [Text ''2023-01-20'', Text ''2023-02-02''],
     CauseOfLoss = [Some ''Fire'', Some ''Water''],
     Location = [Some ''Leeds'', Some ''York''],
     PaidIndemnity = Numeric [I 9223372036854775807, I 1],
     PaidExpense = Numeric [I 0, I 0],
     ReserveIndemnity = Numeric [I 0, I 0],
     ReserveExpense = Numeric [I 0, I 0]\<rparr>"

text \<open>Two rows whose dates of loss are written in two layouts, in one order and in the other.\<close>

definition iso_first_frame :: frame where
  "iso_first_frame =
    \<lparr>ClaimNumber = [Some ''CLM-401'', Some ''CLM-402''],
     ClaimStatus = [Some ''Open'', Some ''Closed''],
     DateOfLoss = Object [Text ''2023-01-15'', Text ''01/15/2023''],
     DateReported = Object [Blank, Blank],
     CauseOfLoss = [Some ''Fire'', Some ''Water''],
     Location = [Some ''Leeds'', Some ''York''],
     PaidIndemnity = Numeric [I 100, I 200],
     PaidExpense = Numeric [I 0, I 0],
     ReserveIndemnity = Numeric [I 0, I 0],
     ReserveExpense = Numeric [I 0, I 0]\<rparr>"

text \<open>The same two rows, swapped.\<close>

definition us_first_frame :: frame where
  "us_first_frame =
    \<lparr>ClaimNumber = [Some ''CLM-402'', Some ''CLM-401''],
     ClaimStatus = [Some ''Closed'', Some ''Open''],
     DateOfLoss = Object [Text ''01/15/2023'', Text ''2023-01-15''],
     DateReported = Object [Blank, Blank],
     CauseOfLoss = [Some ''Water'', Some ''Fire''],
     Location = [Some ''York'', Some ''Leeds''],
     PaidIndemnity = Numeric [I 200, I 100],
     PaidExpense = Numeric [I 0, I 0],
     ReserveIndemnity = Numeric [I 0, I 0],
     ReserveExpense = Numeric [I 0, I 0]\<rparr>"

text \<open>Three rows: two dates of loss with different offsets from UTC, and one that is no date.\<close>

definition offsets_frame :: frame where
  "offsets_frame =
    \<lparr>ClaimNumber = [Some ''CLM-501'', Some ''CLM-502'', Some ''CLM-503''],
     ClaimStatus = [Some ''Open'', Some ''Closed'', Some ''Open''],
     DateOfLoss = Object [Text ''2023-01-15T10:00:00+01:00'', Text ''2023-01-16T10:00:00+02:00'', Text ''not a date''],
     DateReported = Object [Blank, Blank, Blank],
     CauseOfLoss = [Some ''Fire'', Some ''Water'', Some ''Fire''],
     Location = [Some ''Leeds'', Some ''York'', Some ''Hull''],
     PaidIndemnity = Numeric [I 100, I 200, I 300],
     PaidExpense = Numeric [I 0, I 0, I 0],
     ReserveIndemnity = Numeric [I 0, I 0, I 0],
     ReserveExpense = Numeric [I 0, I 0, I 0]\<rparr>"


text \<open>The sample, cleaned by the example library.\<close>

definition sample_claims :: "claim list" where
  "sample_claims =
    [\<lparr>ClaimNumber = Some ''CLM-001'', ClaimStatus = Some ''Open'',
      DateOfLoss = Some \<lparr>year = 2023, month = 1, day = 15\<rparr>,
      DateReported = Some \<lparr>year = 2023, month = 1, day = 20\<rparr>,
      CauseOfLoss = Some ''Fire'', Location = None,
      PaidIndemnity = F (Finite 0), PaidExpense = F (Finite 0),
      ReserveIndemnity = I 300, ReserveExpense = F (Finite 12),
      TotalIncurred = F (Finite 312), TotalPaid = F (Finite 0), LossYear = Some 2023\<rparr>,
     \<lparr>ClaimNumber = Some ''CLM-002'', ClaimStatus = None,
      DateOfLoss = None,
      DateReported = None,
      CauseOfLoss = Some ''Water'', Location = Some ''Leeds'',
      PaidIndemnity = F (Finite 1000), PaidExpense = F (Finite 200),
      ReserveIndemnity = I 0, ReserveExpense = F (Finite 0),
      TotalIncurred = F (Finite 1200), TotalPaid = F (Finite 1200), LossYear = None\<rparr>,
     \<lparr>ClaimNumber = Some ''CLM-003'', ClaimStatus = Some ''Closed'',
      DateOfLoss = Some \<lparr>year = 2022, month = 11, day = 2\<rparr>,
      DateReported = Some \<lparr>year = 2022, month = 11, day = 3\<rparr>,
      CauseOfLoss = Some ''Fire'', Location = Some ''Leeds'',
      PaidIndemnity = F (Finite 500), PaidExpense = F (Finite 0),
      ReserveIndemnity = I 300, ReserveExpense = F (Finite 0),
      TotalIncurred = F (Finite 800), TotalPaid = F (Finite 500), LossYear = Some 2022\<rparr>,
     \<lparr>ClaimNumber = Some ''CLM-004'', ClaimStatus = Some ''Open'',
      DateOfLoss = Some \<lparr>year = 2023, month = 3, day = 9\<rparr>,
      DateReported = Some \<lparr>year = 2023, month = 3, day = 10\<rparr>,
      CauseOfLoss = Some ''Theft'', Location = Some ''York'',
      PaidIndemnity = F (Finite 40), PaidExpense = F (Finite 10),
      ReserveIndemnity = I 50, ReserveExpense = F (Finite 0),
      TotalIncurred = F (Finite 100), TotalPaid = F (Finite 50), LossYear = Some 2023\<rparr>,
     \<lparr>ClaimNumber = Some ''CLM-005'', ClaimStatus = Some ''Closed'',
      DateOfLoss = None,
      DateReported = None,
      CauseOfLoss = Some ''Wind'', Location = Some ''York'',
      PaidIndemnity = F (Finite 75), PaidExpense = F (Finite 15),
      ReserveIndemnity = I 0, ReserveExpense = F (Finite 0),
      TotalIncurred = F (Finite 90), TotalPaid = F (Finite 90), LossYear = None\<rparr>,
     \<lparr>ClaimNumber = Some ''CLM-006'', ClaimStatus = Some ''Open'',
      DateOfLoss = Some \<lparr>year = 2021, month = 7, day = 30\<rparr>,
      DateReported = Some \<lparr>year = 2021, month = 8, day = 2\<rparr>,
      CauseOfLoss = Some ''Hail'', Location = Some ''Hull'',
      PaidIndemnity = F (Finite 0), PaidExpense = F (Finite 5),
      ReserveIndemnity = I 20, ReserveExpense = F (Finite 0),
      TotalIncurred = F (Finite 25), TotalPaid = F (Finite 5), LossYear = Some 2021\<rparr>,
     \<lparr>ClaimNumber = Some ''CLM-007'', ClaimStatus = Some ''Open'',
      DateOfLoss = Some \<lparr>year = 2022, month = 2, day = 14\<rparr>,
      DateReported = Some \<lparr>year = 2022, month = 2, day = 15\<rparr>,
      CauseOfLoss = Some ''Flood'', Location = Some ''Leeds'',
      PaidIndemnity = F (Finite 2500), PaidExpense = F (Finite 100),
      ReserveIndemnity = I 0, ReserveExpense = F (Finite 400),
      TotalIncurred = F (Finite 3000), TotalPaid = F (Finite 2600), LossYear = Some 2022\<rparr>]"

section \<open>Properties of the grouped views\<close>

lemma load_sample: "load_and_normalize sample_lib sample_frame = Inr sample_claims"
  by code_simp

subsection \<open>Dropping missing keys\<close>

lemma set_dropna: "set (dropna xs) = {x. Some x \<in> set xs}"
  by (induction xs rule: dropna.induct) auto

lemma dropna_filter_present:
  "dropna (map key (filter (\<lambda>r. key r \<noteq> None) df)) = dropna (map key df)"
proof (induction df)
  case Nil
  show ?case by simp
next
  case (Cons r df)
  then show ?case by (cases "key r") simp_all
qed

lemma length_dropna:
  "length (dropna (map key df)) = length (filter (\<lambda>r. key r \<noteq> None) df)"
proof (induction df)
  case Nil
  show ?case by simp
next
  case (Cons r df)
  then show ?case by (cases "key r") simp_all
qed

lemma filter_key_present:
  "filter (\<lambda>r. key r = Some k) (filter (\<lambda>r. key r \<noteq> None) df) =
   filter (\<lambda>r. key r = Some k) df"
  by (induction df) auto

subsection \<open>Grouping\<close>

lemma groupby_sum_keys:
  "map fst (groupby_sum key df) = sort (remdups (dropna (map key df)))"
  by (simp add: groupby_sum_def comp_def)

lemma groupby_sum_sorted: "sorted (map fst (groupby_sum key df))"
  by (simp add: groupby_sum_keys)


lemma groupby_sum_set_keys:
  "set (map fst (groupby_sum key df)) = {k. \<exists>r \<in> set df. key r = Some k}"
proof -
  have "set (map fst (groupby_sum key df)) = {k. Some k \<in> key ` set df}"
    by (simp add: groupby_sum_keys set_dropna)
  also have "\<dots> = {k. \<exists>r \<in> set df. key r = Some k}"
    by force
  finally show ?thesis .
qed


lemma groupby_sum_present:
  "groupby_sum key (filter (\<lambda>r. key r \<noteq> None) df) = groupby_sum key df"
  unfolding groupby_sum_def by (simp only: dropna_filter_present filter_key_present)

subsection \<open>Sorting by value\<close>

lemma sum_list_insort_key:
  "sum_list (map g (insort_key f x xs)) = g x + sum_list (map g xs)"
  for g :: "'a \<Rightarrow> nat"
  by (induction xs) simp_all

lemma sum_list_sort_key: "sum_list (map g (sort_key f xs)) = sum_list (map g xs)"
  for g :: "'a \<Rightarrow> nat"
  by (induction xs) (simp_all add: sum_list_insort_key)






subsection \<open>The leading groups\<close>











subsection \<open>Claims by status\<close>

lemma value_counts_total: "sum_list (map snd (value_counts xs)) = length (dropna xs)"
proof -
  let ?zs = "dropna xs"
  let ?us = "rev (remdups (rev ?zs))"
  have "sum_list (map snd (value_counts xs)) = sum_list (map (count_list ?zs) ?us)"
    by (simp add: value_counts_def sum_list_sort_key comp_def)
  also have "\<dots> = sum (count_list ?zs) (set ?us)"
    by (rule sum_list_distinct_conv_sum_set) simp
  also have "\<dots> = length ?zs"
    by (rule sum_count_set) simp_all
  finally show ?thesis .
qed

lemma status_counts_total:
  "sum_list (map snd (status_counts df)) = length (filter (\<lambda>r. ClaimStatus r \<noteq> None) df)"
  by (simp only: status_counts_def value_counts_total length_dropna)

lemma dropna_append: "dropna (xs @ ys) = dropna xs @ dropna ys"
  by (induction xs rule: dropna.induct) simp_all

lemma status_counts_skip:
  assumes "ClaimStatus r = None"
  shows "status_counts (xs @ r # ys) = status_counts (xs @ ys)"
  using assms by (simp add: status_counts_def value_counts_def dropna_append)

lemma total_open_claims_skip:
  assumes "ClaimStatus r = None"
  shows "total_open_claims (xs @ r # ys) = total_open_claims (xs @ ys)"
  using assms by (simp add: total_open_claims_def is_open_def)

text \<open>
  Claim C10: a record whose \<^verbatim>\<open>ClaimStatus\<close> is missing is left out of the status breakdown and
  of the count of open claims (both are the same with the record removed); the counts of the
  breakdown add up to the number of records that have a status, which is less than the number of
  all records as soon as one record has none.
\<close>

theorem missing_status_not_counted:
  "(ClaimStatus r = None \<longrightarrow>
      status_counts (xs @ r # ys) = status_counts (xs @ ys) \<and>
      total_open_claims (xs @ r # ys) = total_open_claims (xs @ ys)) \<and>
   sum_list (map snd (status_counts df)) = length (filter (\<lambda>r. ClaimStatus r \<noteq> None) df) \<and>
   sum_list (map snd (status_counts df)) \<le> length df \<and>
   ((\<exists>r \<in> set df. ClaimStatus r = None) \<longrightarrow> sum_list (map snd (status_counts df)) < length df)"
proof -
  have skip: "ClaimStatus r = None \<longrightarrow>
      status_counts (xs @ r # ys) = status_counts (xs @ ys) \<and>
      total_open_claims (xs @ r # ys) = total_open_claims (xs @ ys)"
    using status_counts_skip [of r xs ys] total_open_claims_skip [of r xs ys] by blast
  have le: "sum_list (map snd (status_counts df)) \<le> length df"
    unfolding status_counts_total by (rule length_filter_le)
  have less: "(\<exists>r \<in> set df. ClaimStatus r = None) \<longrightarrow>
      sum_list (map snd (status_counts df)) < length df"
    unfolding status_counts_total by (auto intro: length_filter_less)
  from skip status_counts_total [of df] le less show ?thesis
    by blast
qed

lemma sample_status_counts:
  "status_counts sample_claims = [(''Open'', 4), (''Closed'', 2)]"
  by code_simp

theorem missing_status_not_counted_witness:
  "ClaimStatus (sample_claims ! 1) = None \<and>
   status_counts sample_claims = [(''Open'', 4), (''Closed'', 2)] \<and>
   sum_list (map snd (status_counts sample_claims)) < length sample_claims"
proof -
  have none: "ClaimStatus (sample_claims ! 1) = None"
    by (simp add: sample_claims_def)
  have "sample_claims ! 1 \<in> set sample_claims"
    by (simp add: sample_claims_def)
  with none have "\<exists>r \<in> set sample_claims. ClaimStatus r = None"
    by blast
  with missing_status_not_counted [of _ _ _ sample_claims]
  have "sum_list (map snd (status_counts sample_claims)) < length sample_claims"
    by blast
  with none sample_status_counts show ?thesis
    by blast
qed

end
